theory Spec2Isabelle
  imports Main "HOL-Library.Sublist"
begin

section \<open>Expert directory search (KeywordSearchApp2.tsx)\<close>

text \<open>
  A shallow embedding of the React component \<^verbatim>\<open>KeywordSearchApp\<close> of
  \<^verbatim>\<open>src/components/KeywordSearchApp2.tsx\<close>: the component's hooks become one record of
  state, and each handler (\<^verbatim>\<open>loadData\<close>, \<^verbatim>\<open>handleSearchChange\<close>, \<^verbatim>\<open>handleSearch\<close>,
  \<^verbatim>\<open>handleKeyPress\<close>) becomes a function from state to state.

  Strings are lists of code units. The model covers the code units U+0000 to U+00FF, which
  are exactly the values of \<^typ>\<open>char\<close>; on that range the string built-ins used by the
  component (\<^verbatim>\<open>trim\<close>, \<^verbatim>\<open>toLowerCase\<close>, \<^verbatim>\<open>includes\<close>, \<^verbatim>\<open>startsWith\<close>) are written out below.
\<close>

subsection \<open>String built-ins\<close>

text \<open>
  \<^verbatim>\<open>String.prototype.toLowerCase\<close>: below U+0100 the letters with a lowercase mapping are
  A to Z and U+00C0 to U+00DE without the multiplication sign U+00D7; each maps to the code
  unit 32 above it.
\<close>

definition lower_char :: "char \<Rightarrow> char" where
  "lower_char c =
     (let n = (of_char c :: nat)
      in if (65 \<le> n \<and> n \<le> 90) \<or> (192 \<le> n \<and> n \<le> 222 \<and> n \<noteq> 215)
         then char_of (n + 32) else c)"

definition toLowerCase :: "string \<Rightarrow> string" where
  "toLowerCase s = map lower_char s"

text \<open>
  \<^verbatim>\<open>String.prototype.trim\<close> removes white space and line terminators from both ends. Below
  U+0100 these are TAB, LF, VT, FF, CR, SPACE and the no-break space U+00A0.
\<close>

definition is_space :: "char \<Rightarrow> bool" where
  "is_space c =
     (let n = (of_char c :: nat) in (9 \<le> n \<and> n \<le> 13) \<or> n = 32 \<or> n = 160)"

definition trim :: "string \<Rightarrow> string" where
  "trim s = rev (dropWhile is_space (rev (dropWhile is_space s)))"

text \<open>\<^verbatim>\<open>s.startsWith(p)\<close> and \<^verbatim>\<open>s.includes(q)\<close>, both from position 0.\<close>

definition startsWith :: "string \<Rightarrow> string \<Rightarrow> bool" where
  "startsWith s p = (take (length p) s = p)"

primrec includesStr :: "string \<Rightarrow> string \<Rightarrow> bool" where
  "includesStr [] q = (q = [])"
| "includesStr (c # cs) q = (startsWith (c # cs) q \<or> includesStr cs q)"

text \<open>Decimal rendering of a number inside a template literal.\<close>

fun toStringNat :: "nat \<Rightarrow> string" where
  "toStringNat n =
     (if n < 10 then [char_of (48 + n)]
      else toStringNat (n div 10) @ [char_of (48 + n mod 10)])"

declare toStringNat.simps [simp del]

text \<open>\<^verbatim>\<open>new Set(xs).size\<close>: the number of distinct elements of an array.\<close>

definition setSize :: "'a list \<Rightarrow> nat" where
  "setSize xs = length (remdups xs)"

subsection \<open>Data model\<close>

record Person =
  name :: string
  affiliation :: string
  keyword1 :: string
  keyword2 :: string
  keyword3 :: string

record DirectoryStats =
  expertCount :: nat
  expertiseCount :: nat
  affiliationCount :: nat

text \<open>The component's state: one field per \<^verbatim>\<open>useState\<close> hook.\<close>

record app_state =
  data :: "Person list"
  isLoading :: bool
  searchTerm :: string
  searchResults :: "Person list"
  error :: "string option"
  searchPerformed :: bool
  stats :: DirectoryStats

definition initial_state :: app_state where
  "initial_state =
     \<lparr>data = [], isLoading = True, searchTerm = [], searchResults = [], error = None,
      searchPerformed = False,
      stats = \<lparr>expertCount = 0, expertiseCount = 0, affiliationCount = 0\<rparr>\<rparr>"

subsection \<open>Loading\<close>

text \<open>
  What the environment hands to \<^verbatim>\<open>loadData\<close>: \<^verbatim>\<open>fetch\<close> rejects with an error message, or
  resolves to a response with its \<^verbatim>\<open>ok\<close> flag, its status and a body whose text either
  arrives or is rejected.
\<close>

datatype body = Text string | TextRejected string

datatype fetch_outcome = FetchRejected string | Response bool nat body

text \<open>
  A row object of \<^verbatim>\<open>results.data\<close> maps a column name to the cell's text; a column the row
  lacks is \<^verbatim>\<open>undefined\<close>, here \<^const>\<open>None\<close>. The parser calls back either \<^verbatim>\<open>complete\<close> with the
  rows or \<^verbatim>\<open>error\<close>.
\<close>

type_synonym row = "string \<rightharpoonup> string"

datatype papa_result = Complete "row list" | ParseError

text \<open>\<^verbatim>\<open>row.k || ''\<close>: an absent cell and an empty one both give the empty string.\<close>

definition orEmpty :: "string option \<Rightarrow> string" where
  "orEmpty v = (case v of None \<Rightarrow> [] | Some x \<Rightarrow> (if x = [] then [] else x))"

definition parsedData :: "row list \<Rightarrow> Person list" where
  "parsedData rows =
     map (\<lambda>row. \<lparr>name = orEmpty (row ''name''),
                 affiliation = orEmpty (row ''affiliation''),
                 keyword1 = orEmpty (row ''keyword1''),
                 keyword2 = orEmpty (row ''keyword2''),
                 keyword3 = orEmpty (row ''keyword3'')\<rparr>) rows"

definition allKeywords :: "Person list \<Rightarrow> string list" where
  "allKeywords personData =
     filter (\<lambda>keyword. keyword \<noteq> [])
       (map keyword1 personData @ map keyword2 personData @ map keyword3 personData)"

definition computeStats :: "Person list \<Rightarrow> DirectoryStats" where
  "computeStats personData =
     \<lparr>expertCount = setSize (map name personData),
      expertiseCount = setSize (allKeywords personData),
      affiliationCount = setSize (map affiliation personData)\<rparr>"

definition sampleData :: "Person list" where
  "sampleData =
   [\<lparr>name = ''John Smith'', affiliation = ''University of Technology'',
     keyword1 = ''machine learning'', keyword2 = ''neural networks'',
     keyword3 = ''computer vision''\<rparr>,
    \<lparr>name = ''Maria Garcia'', affiliation = ''Research Institute'',
     keyword1 = ''data mining'', keyword2 = ''statistics'', keyword3 = ''big data''\<rparr>,
    \<lparr>name = ''Wei Zhang'', affiliation = ''Tech Solutions Inc'',
     keyword1 = ''cloud computing'', keyword2 = ''distributed systems'',
     keyword3 = ''scalability''\<rparr>,
    \<lparr>name = ''Aisha Johnson'', affiliation = ''Global Analytics'',
     keyword1 = ''data visualization'', keyword2 = ''business intelligence'',
     keyword3 = ''machine learning''\<rparr>,
    \<lparr>name = ''Carlos Rodriguez'', affiliation = ''University of Science'',
     keyword1 = ''robotics'', keyword2 = ''control systems'', keyword3 = ''automation''\<rparr>,
    \<lparr>name = ''Fatima Ali'', affiliation = ''Health Research Center'',
     keyword1 = ''bioinformatics'', keyword2 = ''genomics'',
     keyword3 = ''medical imaging''\<rparr>,
    \<lparr>name = ''David Wilson'', affiliation = ''Innovation Labs'',
     keyword1 = ''virtual reality'', keyword2 = ''augmented reality'',
     keyword3 = ''human-computer interaction''\<rparr>,
    \<lparr>name = ''Emily Chen'', affiliation = ''Tech Solutions Inc'',
     keyword1 = ''web development'', keyword2 = ''user experience'',
     keyword3 = ''accessibility''\<rparr>,
    \<lparr>name = ''James Brown'', affiliation = ''University of Technology'',
     keyword1 = ''artificial intelligence'', keyword2 = ''machine learning'',
     keyword3 = ''deep learning''\<rparr>,
    \<lparr>name = ''Sophia Kumar'', affiliation = ''Data Science Center'',
     keyword1 = ''statistics'', keyword2 = ''natural language processing'',
     keyword3 = ''sentiment analysis''\<rparr>]"

text \<open>
  The body of the \<^verbatim>\<open>try\<close> block up to the call of the parser: \<^const>\<open>Inl\<close> carries the message
  of the error thrown (or of the rejected promise), \<^const>\<open>Inr\<close> the CSV text handed to
  \<^verbatim>\<open>Papa.parse\<close>.
\<close>

definition fetchCsvText :: "fetch_outcome \<Rightarrow> string + string" where
  "fetchCsvText f =
     (case f of
        FetchRejected msg \<Rightarrow> Inl msg
      | Response ok status b \<Rightarrow>
          if \<not> ok then Inl (''HTTP error! Status: '' @ toStringNat status)
          else (case b of
                  TextRejected msg \<Rightarrow> Inl msg
                | Text csvText \<Rightarrow>
                    if startsWith (trim csvText) ''<!DOCTYPE html>''
                    then Inl ''Received HTML instead of CSV data. Check the file path.''
                    else Inr csvText))"

text \<open>
  \<^verbatim>\<open>loadData\<close>. The parser \<^verbatim>\<open>Papa.parse\<close> (with \<^verbatim>\<open>header: true\<close>, \<^verbatim>\<open>skipEmptyLines: true\<close>) is a
  library outside the repository and is a parameter. The \<^verbatim>\<open>catch\<close> block is the \<^const>\<open>Inl\<close>
  branch, the \<^verbatim>\<open>complete\<close> and \<^verbatim>\<open>error\<close> callbacks are the two branches on the parser's
  result.
\<close>

definition loadData :: "(string \<Rightarrow> papa_result) \<Rightarrow> fetch_outcome \<Rightarrow> app_state \<Rightarrow> app_state" where
  "loadData papa f s =
     (case fetchCsvText f of
        Inr csvText \<Rightarrow>
          (case papa csvText of
             Complete rows \<Rightarrow>
               (let personData = parsedData rows
                in s\<lparr>data := personData, stats := computeStats personData,
                     isLoading := False\<rparr>)
           | ParseError \<Rightarrow>
               s\<lparr>error := Some ''Failed to parse CSV data. Please check the file format.'',
                 isLoading := False\<rparr>)
      | Inl message \<Rightarrow>
          s\<lparr>data := sampleData,
            stats := \<lparr>expertCount = 10, expertiseCount = 24, affiliationCount = 7\<rparr>,
            error := Some (''Note: Using sample data. Couldn't load CSV: '' @ message),
            isLoading := False\<rparr>)"

subsection \<open>Searching\<close>

definition handleSearchChange :: "string \<Rightarrow> app_state \<Rightarrow> app_state" where
  "handleSearchChange v s =
     (let s1 = s\<lparr>searchTerm := v\<rparr>
      in if v = [] then s1\<lparr>searchResults := [], searchPerformed := False\<rparr> else s1)"

definition personMatches :: "string \<Rightarrow> Person \<Rightarrow> bool" where
  "personMatches normalizedSearchTerm person =
     (includesStr (toLowerCase (name person)) normalizedSearchTerm \<or>
      includesStr (toLowerCase (affiliation person)) normalizedSearchTerm \<or>
      includesStr (toLowerCase (keyword1 person)) normalizedSearchTerm \<or>
      includesStr (toLowerCase (keyword2 person)) normalizedSearchTerm \<or>
      includesStr (toLowerCase (keyword3 person)) normalizedSearchTerm)"

definition handleSearch :: "app_state \<Rightarrow> app_state" where
  "handleSearch s =
     (if trim (searchTerm s) = [] then s\<lparr>searchResults := [], searchPerformed := False\<rparr>
      else
        (let normalizedSearchTerm = trim (toLowerCase (searchTerm s));
             results = filter (personMatches normalizedSearchTerm) (data s)
         in s\<lparr>searchResults := results, searchPerformed := True\<rparr>))"

definition handleKeyPress :: "string \<Rightarrow> app_state \<Rightarrow> app_state" where
  "handleKeyPress key s = (if key = ''Enter'' then handleSearch s else s)"

subsection \<open>The parser\<close>

text \<open>
  Modelled from the spec: the record parser \<^verbatim>\<open>Papa.parse\<close> is a library that is not among
  the sources. Its options here are \<^verbatim>\<open>header: true\<close> and \<^verbatim>\<open>skipEmptyLines: true\<close>: the first
  row holds the column names, every later row becomes one object keyed by those names, and
  an empty line (a row whose only cell is the empty text) is skipped. A row shorter than
  the header lacks the remaining keys. The splitting of the text into rows and cells
  (delimiters, quoting) is the parameter \<open>tokens\<close>.
\<close>

definition papaRows :: "string list \<Rightarrow> string list list \<Rightarrow> row list" where
  "papaRows header lines =
     map (\<lambda>cells. map_of (zip header cells)) (filter (\<lambda>cells. cells \<noteq> [[]]) lines)"

definition papaParse :: "(string \<Rightarrow> string list list) \<Rightarrow> string \<Rightarrow> papa_result" where
  "papaParse tokens csvText =
     (case tokens csvText of
        [] \<Rightarrow> Complete []
      | header # lines \<Rightarrow> Complete (papaRows header lines))"

text \<open>
  The cell of a row under a column name, as the spec words it: the empty string when the
  column is absent from the row.
\<close>

definition cellByHeader :: "string list \<Rightarrow> string list \<Rightarrow> string \<Rightarrow> string" where
  "cellByHeader header cells k =
     (case map_of (zip header cells) k of None \<Rightarrow> [] | Some v \<Rightarrow> v)"

text \<open>
  A concrete tokeniser for the examples: the plainest tabular text, rows separated by line
  feeds and cells by commas, with no quoting.
\<close>

fun splitOn :: "char \<Rightarrow> string \<Rightarrow> string list" where
  "splitOn d [] = [[]]"
| "splitOn d (c # cs) =
     (if c = d then [] # splitOn d cs
      else (case splitOn d cs of [] \<Rightarrow> [[c]] | x # xs \<Rightarrow> (c # x) # xs))"

definition plainTokens :: "string \<Rightarrow> string list list" where
  "plainTokens csvText = map (splitOn CHR '','') (splitOn CHR 0x0A csvText)"

text \<open>A page of markup whose document type is written in lower case.\<close>

definition exampleMarkup :: string where
  "exampleMarkup = ''<!doctype html>\<newline><html></html>''"

definition exampleCsv :: string where
  "exampleCsv =
     ''affiliation,name,keyword1\<newline>ETH,Ada,lakes\<newline>\<newline>ETH,Bob\<newline>''"

section \<open>Properties\<close>

subsection \<open>Facts about the string built-ins\<close>

lemma includesStr_iff: "includesStr s q \<longleftrightarrow> (\<exists>pre suf. s = pre @ q @ suf)"
proof (induction s)
  case Nil
  show ?case by auto
next
  case (Cons c cs)
  have pre: "startsWith (c # cs) q \<longleftrightarrow> (\<exists>suf. c # cs = q @ suf)"
    unfolding startsWith_def
    by (metis append_eq_conv_conj append_take_drop_id)
  show ?case
  proof
    assume "includesStr (c # cs) q"
    then consider "startsWith (c # cs) q" | "includesStr cs q" by auto
    then show "\<exists>pre suf. c # cs = pre @ q @ suf"
    proof cases
      case 1
      then obtain suf where "c # cs = q @ suf" using pre by blast
      then have "c # cs = [] @ q @ suf" by simp
      then show ?thesis by blast
    next
      case 2
      then obtain p suf where "cs = p @ q @ suf" using Cons.IH by blast
      then have "c # cs = (c # p) @ q @ suf" by simp
      then show ?thesis by blast
    qed
  next
    assume "\<exists>pre suf. c # cs = pre @ q @ suf"
    then obtain p suf where eq: "c # cs = p @ q @ suf" by blast
    show "includesStr (c # cs) q"
    proof (cases "p = []")
      case True
      with eq have "c # cs = q @ suf" by simp
      then have "startsWith (c # cs) q" using pre by blast
      then show ?thesis by (simp only: includesStr.simps simp_thms)
    next
      case False
      then obtain a p' where "p = a # p'" by (cases p) auto
      with eq have "cs = p' @ q @ suf" by simp
      then have "includesStr cs q" using Cons.IH by blast
      then show ?thesis by (simp only: includesStr.simps simp_thms)
    qed
  qed
qed

lemma is_space_lower_char: "is_space (lower_char c) = is_space c"
proof -
  have "(of_char (char_of (of_char c + 32 :: nat)) :: nat) = of_char c + 32"
    if "(of_char c :: nat) \<le> 222"
    using that by (simp add: of_char_of)
  then show ?thesis
    by (auto simp: is_space_def lower_char_def Let_def)
qed

lemma dropWhile_space_lower:
  "dropWhile is_space (map lower_char s) = map lower_char (dropWhile is_space s)"
  by (induction s) (simp_all add: is_space_lower_char)

lemma trim_toLowerCase: "trim (toLowerCase s) = toLowerCase (trim s)"
proof -
  have "dropWhile is_space (rev (map lower_char (dropWhile is_space s))) =
        map lower_char (dropWhile is_space (rev (dropWhile is_space s)))"
    using dropWhile_space_lower [of "rev (dropWhile is_space s)"] by (simp only: rev_map)
  then show ?thesis
    by (simp only: trim_def toLowerCase_def dropWhile_space_lower rev_map)
qed

lemma setSize_card: "setSize xs = card (set xs)"
  by (simp add: setSize_def length_remdups_card_conv)

subsection \<open>Facts about loading\<close>

lemma orEmpty_cell: "orEmpty (map_of (zip hs cells) k) = cellByHeader hs cells k"
  by (simp add: orEmpty_def cellByHeader_def split: option.splits)

lemma cellByHeader_absent: "k \<notin> set header \<Longrightarrow> cellByHeader header cells k = []"
proof -
  assume "k \<notin> set header"
  then have "k \<notin> fst ` set (zip header cells)"
    by (auto dest: set_zip_leftD)
  then have "map_of (zip header cells) k = None"
    by (simp add: map_of_eq_None_iff)
  then show ?thesis by (simp add: cellByHeader_def)
qed

lemma loadData_caught:
  "fetchCsvText f = Inl msg \<Longrightarrow>
   loadData papa f s =
     s\<lparr>data := sampleData,
       stats := \<lparr>expertCount = 10, expertiseCount = 24, affiliationCount = 7\<rparr>,
       error := Some (''Note: Using sample data. Couldn't load CSV: '' @ msg),
       isLoading := False\<rparr>"
  by (simp add: loadData_def)

lemma loadData_complete:
  "fetchCsvText f = Inr txt \<Longrightarrow> papa txt = Complete rows \<Longrightarrow>
   loadData papa f s =
     s\<lparr>data := parsedData rows, stats := computeStats (parsedData rows), isLoading := False\<rparr>"
  by (simp add: loadData_def Let_def)

lemma fetchCsvText_ok:
  "\<not> startsWith (trim txt) ''<!DOCTYPE html>'' \<Longrightarrow>
   fetchCsvText (Response True st (Text txt)) = Inr txt"
  by (simp add: fetchCsvText_def)

lemma length_sampleData: "length sampleData = 10"
  by (simp add: sampleData_def)

lemma loadData_fallback:
  assumes "f = FetchRejected m \<or> f = Response False st b \<or>
           f = Response True st (TextRejected m) \<or>
           (f = Response True st (Text txt) \<and> startsWith (trim txt) ''<!DOCTYPE html>'')"
  shows "data (loadData papa f s) = sampleData \<and> length (data (loadData papa f s)) = 10 \<and>
         error (loadData papa f s) \<noteq> None \<and> \<not> isLoading (loadData papa f s)"
proof -
  obtain msg where "fetchCsvText f = Inl msg"
    using assms by (auto simp: fetchCsvText_def)
  then have eq: "loadData papa f s =
     s\<lparr>data := sampleData,
       stats := \<lparr>expertCount = 10, expertiseCount = 24, affiliationCount = 7\<rparr>,
       error := Some (''Note: Using sample data. Couldn't load CSV: '' @ msg),
       isLoading := False\<rparr>"
    by (rule loadData_caught)
  show ?thesis by (simp add: eq length_sampleData)
qed

lemma set_allKeywords:
  "set (allKeywords R) =
     {k. k \<noteq> [] \<and> (\<exists>p \<in> set R. k = keyword1 p \<or> k = keyword2 p \<or> k = keyword3 p)}"
  by (auto simp: allKeywords_def)

lemma stats_handleSearch: "stats (handleSearch t) = stats t"
  by (simp add: handleSearch_def Let_def)

lemma stats_handleSearchChange: "stats (handleSearchChange v t) = stats t"
  by (simp add: handleSearchChange_def Let_def)

lemma data_loadData_rejected: "data (loadData papa (FetchRejected m) s) = sampleData"
  by (simp add: loadData_caught fetchCsvText_def)

lemma handleSearch_after_change:
  "searchResults (handleSearch (handleSearchChange q s)) =
     searchResults (handleSearch (initial_state\<lparr>data := data s, searchTerm := q\<rparr>)) \<and>
   searchPerformed (handleSearch (handleSearchChange q s)) =
     searchPerformed (handleSearch (initial_state\<lparr>data := data s, searchTerm := q\<rparr>))"
  by (simp add: handleSearch_def handleSearchChange_def Let_def)

subsection \<open>Searching\<close>

text \<open>
  C1. For every record list \<open>R\<close> and every query \<open>Q\<close> whose trimmed form is not empty, the
  search returns exactly the records of \<open>R\<close>, in their order in \<open>R\<close>, for which the
  lowercased trimmed query is a substring (\<^const>\<open>sublist\<close>) of at least one of the five
  lowercased fields; being a \<^const>\<open>filter\<close> of \<open>R\<close>, the result leaves out every record
  where it is a substring of none and keeps the relative order. The search-performed flag
  is set.
\<close>

theorem handleSearch_filter:
  assumes "trim Q \<noteq> []"
  shows "searchResults (handleSearch (s\<lparr>searchTerm := Q, data := R\<rparr>)) =
           filter (\<lambda>p. sublist (toLowerCase (trim Q)) (toLowerCase (name p)) \<or>
                        sublist (toLowerCase (trim Q)) (toLowerCase (affiliation p)) \<or>
                        sublist (toLowerCase (trim Q)) (toLowerCase (keyword1 p)) \<or>
                        sublist (toLowerCase (trim Q)) (toLowerCase (keyword2 p)) \<or>
                        sublist (toLowerCase (trim Q)) (toLowerCase (keyword3 p))) R \<and>
         searchPerformed (handleSearch (s\<lparr>searchTerm := Q, data := R\<rparr>))"
proof -
  have inc: "includesStr x q = sublist q x" for x q
    by (simp add: includesStr_iff sublist_def)
  have pm: "personMatches q =
      (\<lambda>p. sublist q (toLowerCase (name p)) \<or> sublist q (toLowerCase (affiliation p)) \<or>
           sublist q (toLowerCase (keyword1 p)) \<or> sublist q (toLowerCase (keyword2 p)) \<or>
           sublist q (toLowerCase (keyword3 p)))" for q
    by (rule ext) (simp add: personMatches_def inc)
  show ?thesis
    using assms
    by (simp add: handleSearch_def Let_def pm trim_toLowerCase)
qed

theorem handleSearch_filter_witness:
  "trim '' Smith '' \<noteq> [] \<and>
   map name (searchResults (handleSearch (initial_state\<lparr>searchTerm := '' Smith '', data := sampleData\<rparr>))) =
   map name (filter (\<lambda>p. sublist (toLowerCase (trim '' Smith '')) (toLowerCase (name p)) \<or>
                        sublist (toLowerCase (trim '' Smith '')) (toLowerCase (affiliation p)) \<or>
                        sublist (toLowerCase (trim '' Smith '')) (toLowerCase (keyword1 p)) \<or>
                        sublist (toLowerCase (trim '' Smith '')) (toLowerCase (keyword2 p)) \<or>
                        sublist (toLowerCase (trim '' Smith '')) (toLowerCase (keyword3 p))) sampleData)"
proof -
  have h: "trim '' Smith '' \<noteq> []" by code_simp
  show ?thesis
    using h handleSearch_filter [OF h, where s = initial_state and R = sampleData]
    by simp
qed

text \<open>
  C4. For every record list and every query whose trimmed form is empty, the search gives
  the empty result list and resets the search-performed flag; nothing is reported as an
  error (the error channel keeps its value), and the records are left as they were.
\<close>

theorem handleSearch_blank:
  assumes "trim Q = []"
  shows "searchResults (handleSearch (s\<lparr>searchTerm := Q, data := R\<rparr>)) = [] \<and>
         searchPerformed (handleSearch (s\<lparr>searchTerm := Q, data := R\<rparr>)) = False \<and>
         error (handleSearch (s\<lparr>searchTerm := Q, data := R\<rparr>)) = error s \<and>
         data (handleSearch (s\<lparr>searchTerm := Q, data := R\<rparr>)) = R"
  using assms by (simp add: handleSearch_def)

theorem handleSearch_blank_witness:
  "trim ''  '' = [] \<and>
   searchResults (handleSearch (initial_state\<lparr>searchTerm := ''  '', data := sampleData\<rparr>)) = [] \<and>
   searchPerformed (handleSearch (initial_state\<lparr>searchTerm := ''  '', data := sampleData\<rparr>)) = False \<and>
   error (handleSearch (initial_state\<lparr>searchTerm := ''  '', data := sampleData\<rparr>)) = None"
proof -
  have h: "trim ''  '' = []" by code_simp
  show ?thesis
    using h handleSearch_blank [OF h, where s = initial_state and R = sampleData]
    by (simp add: initial_state_def)
qed

text \<open>
  C9. The search is a function of the query and the records alone: it leaves the record
  list and the query as they are, running it again on its own result state changes
  nothing, and two states that agree on the query and the records get the same ordered
  results and the same flag, whatever else they hold.
\<close>

theorem handleSearch_pure:
  "data (handleSearch s) = data s \<and>
   searchTerm (handleSearch s) = searchTerm s \<and>
   handleSearch (handleSearch s) = handleSearch s \<and>
   (searchTerm s = searchTerm t \<and> data s = data t \<longrightarrow>
      searchResults (handleSearch s) = searchResults (handleSearch t) \<and>
      searchPerformed (handleSearch s) = searchPerformed (handleSearch t))"
  by (simp add: handleSearch_def Let_def)

theorem handleSearch_pure_witness:
  "searchResults (handleSearch (initial_state\<lparr>data := sampleData, searchTerm := ''smith''\<rparr>)) =
   searchResults (handleSearch
     (initial_state\<lparr>data := sampleData, searchTerm := ''smith'', searchPerformed := True,
        error := Some ''x'', searchResults := sampleData\<rparr>)) \<and>
   data (handleSearch (initial_state\<lparr>data := sampleData, searchTerm := ''smith''\<rparr>)) = sampleData"
  using handleSearch_pure [of "initial_state\<lparr>data := sampleData, searchTerm := ''smith''\<rparr>"
      "initial_state\<lparr>data := sampleData, searchTerm := ''smith'', searchPerformed := True,
        error := Some ''x'', searchResults := sampleData\<rparr>"]
  by simp

text \<open>
  C10. The input-change handler stores the new value; it clears the results and resets the
  search-performed flag when the new value is the empty string, and for every other value,
  a string of white space included, it leaves the results and the flag as they were.
\<close>

theorem handleSearchChange_clears:
  "searchTerm (handleSearchChange v s) = v \<and>
   (v = [] \<longrightarrow> searchResults (handleSearchChange v s) = [] \<and>
               \<not> searchPerformed (handleSearchChange v s)) \<and>
   (v \<noteq> [] \<longrightarrow> searchResults (handleSearchChange v s) = searchResults s \<and>
               searchPerformed (handleSearchChange v s) = searchPerformed s)"
  by (simp add: handleSearchChange_def Let_def)

theorem handleSearchChange_clears_witness:
  "searchResults (handleSearchChange []
      (initial_state\<lparr>searchResults := sampleData, searchPerformed := True\<rparr>)) = [] \<and>
   \<not> searchPerformed (handleSearchChange []
      (initial_state\<lparr>searchResults := sampleData, searchPerformed := True\<rparr>)) \<and>
   trim ''  '' = [] \<and>
   searchResults (handleSearchChange ''  ''
      (initial_state\<lparr>searchResults := sampleData, searchPerformed := True\<rparr>)) = sampleData \<and>
   searchPerformed (handleSearchChange ''  ''
      (initial_state\<lparr>searchResults := sampleData, searchPerformed := True\<rparr>))"
proof -
  have h: "trim ''  '' = []" by code_simp
  show ?thesis
    using h
      handleSearchChange_clears [of "[]"
        "initial_state\<lparr>searchResults := sampleData, searchPerformed := True\<rparr>"]
      handleSearchChange_clears [of "''  ''"
        "initial_state\<lparr>searchResults := sampleData, searchPerformed := True\<rparr>"]
    by simp
qed

text \<open>
  C7. With the fallback records loaded, the query "University of Technology" returns
  exactly the records of John Smith and James Brown; for both, the affiliation contains the
  normalised query and neither the name nor any keyword does.
\<close>

theorem search_university_of_technology:
  "map name (searchResults (handleSearch (handleSearchChange ''University of Technology''
      (loadData papa (FetchRejected m) initial_state)))) = [''John Smith'', ''James Brown''] \<and>
   map (\<lambda>p. includesStr (toLowerCase (affiliation p)) ''university of technology'')
     (searchResults (handleSearch (handleSearchChange ''University of Technology''
      (loadData papa (FetchRejected m) initial_state)))) = [True, True] \<and>
   map (\<lambda>p. includesStr (toLowerCase (name p)) ''university of technology'' \<or>
            includesStr (toLowerCase (keyword1 p)) ''university of technology'' \<or>
            includesStr (toLowerCase (keyword2 p)) ''university of technology'' \<or>
            includesStr (toLowerCase (keyword3 p)) ''university of technology'')
     (searchResults (handleSearch (handleSearchChange ''University of Technology''
      (loadData papa (FetchRejected m) initial_state)))) = [False, False]"
proof -
  have "fetchCsvText (FetchRejected m) = Inl m" by (simp add: fetchCsvText_def)
  then have d: "data (loadData papa (FetchRejected m) initial_state) = sampleData"
    by (simp add: loadData_caught)
  have r: "searchResults (handleSearch (initial_state\<lparr>data := sampleData,
        searchTerm := ''University of Technology''\<rparr>)) = [sampleData ! 0, sampleData ! 8]"
    by code_simp
  have e: "searchResults (handleSearch (handleSearchChange ''University of Technology''
      (loadData papa (FetchRejected m) initial_state))) =
      searchResults (handleSearch (initial_state\<lparr>data := sampleData,
        searchTerm := ''University of Technology''\<rparr>))"
    using d by (simp add: handleSearch_def handleSearchChange_def Let_def)
  have 1: "map name [sampleData ! 0, sampleData ! 8] = [''John Smith'', ''James Brown'']"
    by code_simp
  have 2: "map (\<lambda>p. includesStr (toLowerCase (affiliation p)) ''university of technology'')
     [sampleData ! 0, sampleData ! 8] = [True, True]"
    by code_simp
  have 3: "map (\<lambda>p. includesStr (toLowerCase (name p)) ''university of technology'' \<or>
            includesStr (toLowerCase (keyword1 p)) ''university of technology'' \<or>
            includesStr (toLowerCase (keyword2 p)) ''university of technology'' \<or>
            includesStr (toLowerCase (keyword3 p)) ''university of technology'')
     [sampleData ! 0, sampleData ! 8] = [False, False]"
    by code_simp
  show ?thesis
    by (simp only: e r 1 2 3 simp_thms)
qed

text \<open>
  C8. With the fallback records loaded, the query "machine learning" returns the records
  of John Smith, Aisha Johnson and James Brown, in that order, and sets the
  search-performed flag.
\<close>

theorem search_machine_learning:
  "map name (searchResults (handleSearch (handleSearchChange ''machine learning''
      (loadData papa (FetchRejected m) initial_state)))) =
     [''John Smith'', ''Aisha Johnson'', ''James Brown''] \<and>
   searchPerformed (handleSearch (handleSearchChange ''machine learning''
      (loadData papa (FetchRejected m) initial_state)))"
proof -
  have r: "map name (searchResults (handleSearch (initial_state\<lparr>data := sampleData,
        searchTerm := ''machine learning''\<rparr>))) =
      [''John Smith'', ''Aisha Johnson'', ''James Brown'']"
    by code_simp
  have p: "searchPerformed (handleSearch (initial_state\<lparr>data := sampleData,
        searchTerm := ''machine learning''\<rparr>))"
    by code_simp
  show ?thesis
    using r p by (simp only: handleSearch_after_change data_loadData_rejected simp_thms)
qed

subsection \<open>Loading\<close>

text \<open>
  C2. A load failure is to end with exactly the 10 fallback records and an advisory
  message. The check for a page of markup in place of the table compares the trimmed body
  with \<^verbatim>\<open><!DOCTYPE html>\<close> letter for letter, so a page whose document type is written
  \<^verbatim>\<open><!doctype html>\<close> passes it: the body goes to the parser, the load stores the single
  record of empty fields that comes back, and no message is set.
\<close>

theorem loadData_markup_undetected:
  "fetchCsvText (Response True 200 (Text exampleMarkup)) = Inr exampleMarkup \<and>
   data (loadData (papaParse plainTokens) (Response True 200 (Text exampleMarkup)) initial_state) =
     [\<lparr>name = [], affiliation = [], keyword1 = [], keyword2 = [], keyword3 = []\<rparr>] \<and>
   error (loadData (papaParse plainTokens) (Response True 200 (Text exampleMarkup)) initial_state) =
     None \<and>
   data (loadData (papaParse plainTokens) (Response True 200 (Text exampleMarkup)) initial_state) \<noteq>
     sampleData"
proof -
  let ?L = "loadData (papaParse plainTokens) (Response True 200 (Text exampleMarkup)) initial_state"
  have g: "fetchCsvText (Response True 200 (Text exampleMarkup)) = Inr exampleMarkup"
    by code_simp
  have d: "data ?L =
      [\<lparr>name = [], affiliation = [], keyword1 = [], keyword2 = [], keyword3 = []\<rparr>]"
    by code_simp
  have e: "error ?L = None"
    by code_simp
  have n: "data ?L \<noteq> sampleData"
    by (simp add: d sampleData_def)
  show ?thesis
    using g d e n by blast
qed

text \<open>
  C3. On the fallback path the statistics are the constants 10, 24 and 7, while the 10
  fallback records hold 10 distinct names, 27 distinct non-empty keywords and 8 distinct
  affiliations.
\<close>

theorem sample_stats_hardcoded:
  "stats (loadData papa (FetchRejected m) s) =
     \<lparr>expertCount = 10, expertiseCount = 24, affiliationCount = 7\<rparr> \<and>
   data (loadData papa (FetchRejected m) s) = sampleData \<and>
   card (set (map name sampleData)) = 10 \<and>
   card (set (allKeywords sampleData)) = 27 \<and>
   card (set (map affiliation sampleData)) = 8"
proof -
  have "fetchCsvText (FetchRejected m) = Inl m" by (simp add: fetchCsvText_def)
  then have eq: "loadData papa (FetchRejected m) s =
     s\<lparr>data := sampleData,
       stats := \<lparr>expertCount = 10, expertiseCount = 24, affiliationCount = 7\<rparr>,
       error := Some (''Note: Using sample data. Couldn't load CSV: '' @ m),
       isLoading := False\<rparr>"
    by (rule loadData_caught)
  have n: "setSize (map name sampleData) = 10" by code_simp
  have k: "setSize (allKeywords sampleData) = 27" by code_simp
  have a: "setSize (map affiliation sampleData) = 8" by code_simp
  show ?thesis
    using n k a by (simp add: eq setSize_card)
qed

text \<open>
  C5. After a successful load of the records \<open>R\<close>, the stored statistics are the number of
  distinct names in \<open>R\<close>, the number of distinct non-empty strings among the three keyword
  fields of \<open>R\<close>, and the number of distinct affiliations in \<open>R\<close>; a search, a change of the
  input and a key press leave them as they are.
\<close>

theorem loadData_stats:
  assumes "\<not> startsWith (trim txt) ''<!DOCTYPE html>''" and "papa txt = Complete rows"
    and "s' = loadData papa (Response True st (Text txt)) s" and "R = data s'"
  shows "R = parsedData rows \<and>
         expertCount (stats s') = card (name ` set R) \<and>
         expertiseCount (stats s') =
           card {k. k \<noteq> [] \<and> (\<exists>p \<in> set R. k = keyword1 p \<or> k = keyword2 p \<or> k = keyword3 p)} \<and>
         affiliationCount (stats s') = card (affiliation ` set R) \<and>
         stats (handleSearch (s'\<lparr>searchTerm := q\<rparr>)) = stats s' \<and>
         stats (handleSearchChange v s') = stats s' \<and>
         stats (handleKeyPress key s') = stats s'"
proof -
  have "fetchCsvText (Response True st (Text txt)) = Inr txt"
    using assms(1) by (rule fetchCsvText_ok)
  then have eq: "s' = s\<lparr>data := parsedData rows, stats := computeStats (parsedData rows),
                        isLoading := False\<rparr>"
    using assms(2,3) by (simp add: loadData_complete)
  then have R: "R = parsedData rows" and st: "stats s' = computeStats R"
    using assms(4) by simp_all
  have "expertiseCount (computeStats R) = card (set (allKeywords R))"
    by (simp add: computeStats_def setSize_card)
  then have kw: "expertiseCount (stats s') =
      card {k. k \<noteq> [] \<and> (\<exists>p \<in> set R. k = keyword1 p \<or> k = keyword2 p \<or> k = keyword3 p)}"
    by (simp only: st set_allKeywords)
  have ex: "expertCount (stats s') = card (name ` set R)"
    by (simp add: st computeStats_def setSize_card)
  have af: "affiliationCount (stats s') = card (affiliation ` set R)"
    by (simp add: st computeStats_def setSize_card)
  have kp: "stats (handleKeyPress key s') = stats s'"
    by (simp add: handleKeyPress_def stats_handleSearch)
  show ?thesis
    using R kw ex af kp by (simp add: stats_handleSearch stats_handleSearchChange)
qed

theorem loadData_stats_witness:
  "stats (loadData (papaParse plainTokens) (Response True 200 (Text exampleCsv)) initial_state) =
     \<lparr>expertCount = 2, expertiseCount = 1, affiliationCount = 1\<rparr> \<and>
   card (name ` set (data (loadData (papaParse plainTokens)
     (Response True 200 (Text exampleCsv)) initial_state))) = 2 \<and>
   card (affiliation ` set (data (loadData (papaParse plainTokens)
     (Response True 200 (Text exampleCsv)) initial_state))) = 1"
proof -
  have h: "\<not> startsWith (trim exampleCsv) ''<!DOCTYPE html>''" by code_simp
  have c: "papaParse plainTokens exampleCsv =
      Complete (papaRows [''affiliation'', ''name'', ''keyword1'']
        [[''ETH'', ''Ada'', ''lakes''], [[]], [''ETH'', ''Bob''], [[]]])"
    by (simp add: papaParse_def plainTokens_def exampleCsv_def)
  let ?L = "loadData (papaParse plainTokens) (Response True 200 (Text exampleCsv)) initial_state"
  have v: "stats ?L = \<lparr>expertCount = 2, expertiseCount = 1, affiliationCount = 1\<rparr>"
    by code_simp
  have e: "expertCount (stats ?L) = card (name ` set (data ?L)) \<and>
      affiliationCount (stats ?L) = card (affiliation ` set (data ?L))"
    using loadData_stats [of exampleCsv "papaParse plainTokens" _ _ 200 initial_state _
        "[]" "[]" "[]", OF h c refl refl]
    by blast
  have "card (name ` set (data ?L)) = 2" and "card (affiliation ` set (data ?L)) = 1"
    using e by (simp_all only: v DirectoryStats.simps)
  then show ?thesis
    using v by blast
qed

text \<open>
  C6. For tabular text whose first row is the header, the loaded records are one per
  non-empty data row, in the order of the rows; each field is the cell under the column of
  that name, and the empty string when the row has no such cell or the cell is empty.
\<close>

theorem loadData_rows:
  assumes "tokens txt = header # lines" and "\<not> startsWith (trim txt) ''<!DOCTYPE html>''"
  shows "data (loadData (papaParse tokens) (Response True st (Text txt)) s) =
           map (\<lambda>cells. \<lparr>name = cellByHeader header cells ''name'',
                          affiliation = cellByHeader header cells ''affiliation'',
                          keyword1 = cellByHeader header cells ''keyword1'',
                          keyword2 = cellByHeader header cells ''keyword2'',
                          keyword3 = cellByHeader header cells ''keyword3''\<rparr>)
               (filter (\<lambda>cells. cells \<noteq> [[]]) lines)"
proof -
  have "fetchCsvText (Response True st (Text txt)) = Inr txt"
    using assms(2) by (rule fetchCsvText_ok)
  moreover have "papaParse tokens txt = Complete (papaRows header lines)"
    using assms(1) by (simp add: papaParse_def)
  ultimately have "data (loadData (papaParse tokens) (Response True st (Text txt)) s) =
      parsedData (papaRows header lines)"
    by (simp add: loadData_complete)
  then show ?thesis
    by (simp add: parsedData_def papaRows_def orEmpty_cell)
qed

theorem loadData_rows_witness:
  "map name (data (loadData (papaParse plainTokens)
      (Response True 200 (Text exampleCsv))
      initial_state)) = [''Ada'', ''Bob''] \<and>
   map keyword3 (data (loadData (papaParse plainTokens)
      (Response True 200 (Text exampleCsv))
      initial_state)) = [[], []]"
proof -
  have t: "plainTokens exampleCsv =
      [''affiliation'', ''name'', ''keyword1''] #
      [[''ETH'', ''Ada'', ''lakes''], [[]], [''ETH'', ''Bob''], [[]]]"
    by code_simp
  have h: "\<not> startsWith (trim exampleCsv)
      ''<!DOCTYPE html>''"
    by code_simp
  show ?thesis
    using loadData_rows [of plainTokens
        "exampleCsv"
        _ _ 200 initial_state, OF t h]
    by (simp add: cellByHeader_def)
qed

end
